theory Spec2Isabelle
  imports Complex_Main "HOL-Library.AList" "HOL-Library.Option_ord"
begin

section \<open>Exceptions\<close>

text \<open>
  Every exception the modelled code can raise is a value. \<open>Exception\<close> carries the
  message of a plain \<^verbatim>\<open>raise Exception('...')\<close>; the others are the Python and Django
  exception classes of the same name.
\<close>

datatype exn =
    Exception string
  | TypeError
  | AttributeError
  | KeyError
  | DoesNotExist
  | MultipleObjectsReturned
  | ScaleLogicBug
  | InvalidData

section \<open>Resource vectors (node/resources/node\_resources.py)\<close>

text \<open>
  A resource has a name, a value and a resource type. The classes \<^verbatim>\<open>Cpus\<close>,
  \<^verbatim>\<open>Mem\<close> and \<^verbatim>\<open>Disk\<close> live in node/resources/resource.py; the properties
  \<^verbatim>\<open>cpus\<close>, \<^verbatim>\<open>mem\<close> and \<^verbatim>\<open>disk\<close> of \<^verbatim>\<open>NodeResources\<close> read them back under the keys
  \<^verbatim>\<open>'cpus'\<close>, \<^verbatim>\<open>'mem'\<close> and \<^verbatim>\<open>'disk'\<close>, and every arithmetic line is commented
  "Assumes SCALAR type". A value is the real number that a (finite) Python float stands
  for. The float sum of \<^verbatim>\<open>+=\<close> and the float difference of \<^verbatim>\<open>-=\<close> round their result,
  so they are not the sum and the difference of real numbers: they are the arguments
  \<open>fadd\<close> and \<open>fsub\<close> of the operations that use them, and what is proved holds
  however they round.
\<close>

record resource =
  res_name :: string
  res_value :: real
  resource_type :: string

definition Cpus :: "real \<Rightarrow> resource" where
  "Cpus v = \<lparr>res_name = ''cpus'', res_value = v, resource_type = ''SCALAR''\<rparr>"

definition Mem :: "real \<Rightarrow> resource" where
  "Mem v = \<lparr>res_name = ''mem'', res_value = v, resource_type = ''SCALAR''\<rparr>"

definition Disk :: "real \<Rightarrow> resource" where
  "Disk v = \<lparr>res_name = ''disk'', res_value = v, resource_type = ''SCALAR''\<rparr>"

text \<open>
  The dict \<^verbatim>\<open>_resources\<close> maps a name to the resource stored under it. Every stored
  resource is keyed by its own name and is scalar (the constructor refuses anything
  else), so the model keeps the value under the name: an association list read with
  \<open>map_of\<close> and written with \<open>AList.update\<close>.
\<close>

type_synonym node_resources = "(string \<times> real) list"

definition has_key :: "node_resources \<Rightarrow> string \<Rightarrow> bool" where
  "has_key d n = (map_of d n \<noteq> None)"

fun init_resources :: "resource list \<Rightarrow> node_resources \<Rightarrow> exn + node_resources" where
  "init_resources [] d = Inr d"
| "init_resources (r # rs) d =
     (if resource_type r \<noteq> ''SCALAR'' then Inl ScaleLogicBug
      else init_resources rs (AList.update (res_name r) (res_value r) d))"

definition set_default :: "string \<Rightarrow> node_resources \<Rightarrow> node_resources" where
  "set_default n d = (if \<not> has_key d n then AList.update n 0 d else d)"

definition NodeResources :: "resource list \<Rightarrow> exn + node_resources" where
  "NodeResources resources =
     (case init_resources resources [] of
        Inl e \<Rightarrow> Inl e
      | Inr d \<Rightarrow> Inr (set_default ''disk'' (set_default ''mem'' (set_default ''cpus'' d))))"

text \<open>
  \<^verbatim>\<open>add\<close>: the loop over \<^verbatim>\<open>node_resources.resources\<close>, mutating \<^verbatim>\<open>self\<close>. The
  argument is a value of its own here: it is another object than \<^verbatim>\<open>self\<close>, and a
  resource that \<^verbatim>\<open>self\<close> lacks is stored as a copy.
\<close>

fun add ::
  "(real \<Rightarrow> real \<Rightarrow> real) \<Rightarrow> node_resources \<Rightarrow> node_resources \<Rightarrow> node_resources" where
  "add fadd self [] = self"
| "add fadd self ((n, v) # rest) =
     (case map_of self n of
        Some x \<Rightarrow> add fadd (AList.update n (fadd x v) self) rest
      | None \<Rightarrow> add fadd (AList.update n v self) rest)"






text \<open>The property \<^verbatim>\<open>mem\<close>: \<^verbatim>\<open>self._resources['mem'].value\<close>.\<close>

definition mem :: "node_resources \<Rightarrow> exn + real" where
  "mem d = (case map_of d ''mem'' of None \<Rightarrow> Inl KeyError | Some v \<Rightarrow> Inr v)"




section \<open>Jobs (job/models.py)\<close>

subsection \<open>Data model\<close>

text \<open>
  Times are numbers, JSON dicts are association lists, an in-memory model instance is
  addressed by a reference. \<^verbatim>\<open>timezone.now()\<close> is an argument of every operation that
  calls it.
\<close>

type_synonym datetime = int
type_synonym json_dict = "(string \<times> string) list"
type_synonym ref = nat

datatype status = PENDING | BLOCKED | QUEUED | RUNNING | FAILED | COMPLETED | CANCELED

definition FINAL_STATUSES :: "status list" where
  "FINAL_STATUSES = [FAILED, COMPLETED, CANCELED]"

definition status_str :: "status \<Rightarrow> string" where
  "status_str s =
     (case s of PENDING \<Rightarrow> ''PENDING'' | BLOCKED \<Rightarrow> ''BLOCKED'' | QUEUED \<Rightarrow> ''QUEUED''
      | RUNNING \<Rightarrow> ''RUNNING'' | FAILED \<Rightarrow> ''FAILED'' | COMPLETED \<Rightarrow> ''COMPLETED''
      | CANCELED \<Rightarrow> ''CANCELED'')"

definition MIN_CPUS :: real where "MIN_CPUS = 0.25"
definition MIN_MEM :: real where "MIN_MEM = 128.0"
definition MIN_DISK :: real where "MIN_DISK = 0.0"

text \<open>
  The fields of \<^verbatim>\<open>JobType\<close> that the modelled operations read. \<open>custom_node_resources\<close>
  is what \<^verbatim>\<open>Resources(self.custom_resources).get_node_resources()\<close> returns; the class
  \<^verbatim>\<open>Resources\<close> (node/resources/json/resources.py) is not part of the sources, so its
  result is a field of the model.
\<close>

record JobType =
  job_type_id :: int
  is_active :: bool
  revision_num :: int
  type_priority :: int
  type_timeout :: int
  type_max_tries :: int
  cpus_required :: real
  mem_const_required :: real
  mem_mult_required :: real
  disk_out_const_required :: real
  disk_out_mult_required :: real
  custom_node_resources :: node_resources

record JobTypeRevision =
  rev_id :: int
  rev_job_type_id :: int
  rev_revision_num :: int
  rev_interface :: json_dict

text \<open>
  A job. \<open>job_id\<close> is \<open>None\<close> until the model is saved. \<open>exe_num\<close> is the attribute
  \<^verbatim>\<open>job.exe_num\<close> that \<^verbatim>\<open>complete_job\<close> and \<^verbatim>\<open>update_jobs_to_running\<close> read: the class
  body declares no field of this name (its counter is \<^verbatim>\<open>num_exes\<close>), so an instance
  may lack it (\<open>None\<close>) and reading it then raises AttributeError.
\<close>

record Job =
  job_id :: "int option"
  job_type :: JobType
  job_type_rev :: JobTypeRevision
  status :: status
  event :: int
  error :: "string option"
  data :: json_dict
  results :: json_dict
  priority :: int
  timeout :: int
  max_tries :: int
  num_exes :: int
  exe_num :: "int option"
  disk_in_required :: "real option"
  disk_out_required :: "real option"
  is_superseded :: bool
  root_superseded_job_id :: "int option"
  superseded_job_id :: "int option"
  delete_superseded :: bool
  created :: "datetime option"
  queued :: "datetime option"
  started :: "datetime option"
  ended :: "datetime option"
  last_status_change :: "datetime option"
  superseded :: "datetime option"
  last_modified :: "datetime option"

text \<open>
  A job execution: the reference of its in-memory parent job (\<^verbatim>\<open>job_exe.job\<close>) and the
  fields that \<^verbatim>\<open>JobExecutionManager.update_status\<close> writes.
\<close>

record JobExecution =
  job_exe_id :: "int option"
  exe_job :: ref
  exe_status :: "status option"
  exe_error :: "string option"
  exe_ended :: "datetime option"
  exe_last_modified :: "datetime option"


text \<open>
  The state: the in-memory job models by reference, and the rows of the tables
  \<^verbatim>\<open>job\<close> and \<^verbatim>\<open>job_exe\<close>. Two entries of a list of references may be the same
  object, as in Python.
\<close>

record world =
  objs :: "ref \<Rightarrow> Job"
  job_rows :: "Job list"
  job_exe_rows :: "JobExecution list"

text \<open>
  \<^verbatim>\<open>self.filter(id__in=ids).update(...)\<close>: the assignment \<open>f\<close> is applied to every row
  whose primary key is in \<open>ids\<close>.
\<close>

definition update_rows :: "int option set \<Rightarrow> (Job \<Rightarrow> Job) \<Rightarrow> Job list \<Rightarrow> Job list" where
  "update_rows ids f rows =
     map (\<lambda>row. if job_id row \<noteq> None \<and> job_id row \<in> ids then f row else row) rows"

definition update_exe_rows ::
  "int option set \<Rightarrow> (JobExecution \<Rightarrow> JobExecution) \<Rightarrow> JobExecution list \<Rightarrow> JobExecution list" where
  "update_exe_rows ids f rows =
     map (\<lambda>row. if job_exe_id row \<noteq> None \<and> job_exe_id row \<in> ids then f row else row) rows"

text \<open>Truthiness of a dict, of an optional model instance, of an optional integer.\<close>

definition truthy_dict :: "json_dict \<Rightarrow> bool" where
  "truthy_dict d = (d \<noteq> [])"

definition truthy_int :: "int option \<Rightarrow> bool" where
  "truthy_int x = (case x of None \<Rightarrow> False | Some n \<Rightarrow> n \<noteq> 0)"

definition is_ready_to_queue :: "Job \<Rightarrow> bool" where
  "is_ready_to_queue j = (status j \<in> set [PENDING, CANCELED, FAILED])"

subsection \<open>JobManager.update\_status\<close>

definition status_fields ::
  "status \<Rightarrow> datetime \<Rightarrow> string option \<Rightarrow> datetime \<Rightarrow> Job \<Rightarrow> Job" where
  "status_fields st when err modified j =
     (let change_started = (st = RUNNING);
          ended' = (if st \<in> set FINAL_STATUSES then Some when else None);
          j1 = j\<lparr>status := st, last_status_change := Some when\<rparr>;
          j2 = (if change_started then j1\<lparr>started := Some when\<rparr> else j1)
      in j2\<lparr>ended := ended', error := err, last_modified := Some modified\<rparr>)"

fun update_status_loop ::
  "(Job \<Rightarrow> Job) \<Rightarrow> (ref \<Rightarrow> Job) \<Rightarrow> ref list \<Rightarrow> int option set
     \<Rightarrow> (ref \<Rightarrow> Job) \<times> int option set" where
  "update_status_loop f h [] ids = (h, ids)"
| "update_status_loop f h (r # rs) ids =
     update_status_loop f (h(r := f (h r))) rs (insert (job_id (h r)) ids)"

definition update_status ::
  "world \<Rightarrow> ref list \<Rightarrow> status \<Rightarrow> datetime \<Rightarrow> string option \<Rightarrow> datetime \<Rightarrow> exn + world" where
  "update_status w jobs st when err modified =
     (if st = QUEUED then
        Inl (Exception ''Changing status to QUEUED must use the queue_jobs() method'')
      else if st = FAILED \<and> err = None then
        Inl (Exception ''An error is required when status is FAILED'')
      else if \<not> st = FAILED \<and> err \<noteq> None then
        Inl (Exception (''Status '' @ status_str st @ '' is invalid with an error''))
      else
        (let (h, job_ids) =
               update_status_loop (status_fields st when err modified) (objs w) jobs {}
         in Inr (w\<lparr>objs := h,
                   job_rows := update_rows job_ids (status_fields st when err modified)
                                 (job_rows w)\<rparr>)))"

subsection \<open>JobExecutionManager.update\_status\<close>

definition exe_status_fields ::
  "status \<Rightarrow> datetime \<Rightarrow> string option \<Rightarrow> datetime \<Rightarrow> JobExecution \<Rightarrow> JobExecution" where
  "exe_status_fields st when err modified e =
     e\<lparr>exe_status := Some st, exe_ended := Some when, exe_error := err,
       exe_last_modified := Some modified\<rparr>"

fun exe_update_status_loop ::
  "(JobExecution \<Rightarrow> JobExecution) \<Rightarrow> JobExecution list \<Rightarrow> int option set \<Rightarrow> ref list
     \<Rightarrow> JobExecution list \<times> int option set \<times> ref list" where
  "exe_update_status_loop f [] ids jobs = ([], ids, jobs)"
| "exe_update_status_loop f (e # es) ids jobs =
     (let (es', ids', jobs') =
            exe_update_status_loop f es (insert (job_exe_id e) ids) (jobs @ [exe_job e])
      in (f e # es', ids', jobs'))"

text \<open>
  The job executions are passed and returned as values; every one of them receives the
  same four assignments. \<open>modified\<close> is this method's \<^verbatim>\<open>timezone.now()\<close>,
  \<open>modified'\<close> the one of \<^verbatim>\<open>Job.objects.update_status\<close>.
\<close>

definition exe_update_status ::
  "world \<Rightarrow> JobExecution list \<Rightarrow> status \<Rightarrow> datetime \<Rightarrow> string option \<Rightarrow> datetime \<Rightarrow> datetime
     \<Rightarrow> exn + (world \<times> JobExecution list)" where
  "exe_update_status w job_exes st when err modified modified' =
     (if st = QUEUED then
        Inl (Exception
          ''QUEUED is an invalid status transition for job executions, use queue_job_exes()'')
      else if st = RUNNING then
        Inl (Exception
          ''update_status() cannot set a job execution to RUNNING, use schedule_job_executions()'')
      else if st = FAILED \<and> err = None then
        Inl (Exception ''An error is required when status is FAILED'')
      else if \<not> st = FAILED \<and> err \<noteq> None then
        Inl (Exception (''Status '' @ status_str st @ '' is invalid with an error''))
      else
        (let (job_exes', job_exe_ids, jobs) =
               exe_update_status_loop (exe_status_fields st when err modified) job_exes {} [];
             w1 = w\<lparr>job_exe_rows :=
                      update_exe_rows job_exe_ids (exe_status_fields st when err modified)
                        (job_exe_rows w)\<rparr>
         in case update_status w1 jobs st when err modified' of
              Inl e \<Rightarrow> Inl e
            | Inr w2 \<Rightarrow> Inr (w2, job_exes')))"

subsection \<open>JobManager.queue\_jobs\<close>

text \<open>\<^verbatim>\<open>if priority: job.priority = priority\<close>: \<^verbatim>\<open>None\<close> and \<^verbatim>\<open>0\<close> are both falsy.\<close>

definition set_priority :: "int option \<Rightarrow> Job \<Rightarrow> Job" where
  "set_priority pr j =
     (case pr of None \<Rightarrow> j | Some p \<Rightarrow> if p \<noteq> 0 then j\<lparr>priority := p\<rparr> else j)"

text \<open>
  The assignments of the loop body, which are also the columns of the single
  \<^verbatim>\<open>update(...)\<close> query (with \<^verbatim>\<open>priority=priority\<close> in the branch \<^verbatim>\<open>if priority\<close> only).
\<close>

definition queue_fields :: "datetime \<Rightarrow> int option \<Rightarrow> Job \<Rightarrow> Job" where
  "queue_fields when pr j =
     (set_priority pr
        (j\<lparr>status := QUEUED, error := None, queued := Some when, started := None,
           ended := None, last_status_change := Some when, num_exes := num_exes j + 1\<rparr>))
       \<lparr>last_modified := Some when\<rparr>"

definition not_queueable :: "Job \<Rightarrow> bool" where
  "not_queueable j = (\<not> is_ready_to_queue j \<or> \<not> truthy_dict (data j) \<or> is_superseded j)"

fun queue_jobs_loop ::
  "datetime \<Rightarrow> int option \<Rightarrow> (ref \<Rightarrow> Job) \<Rightarrow> ref list \<Rightarrow> int option set \<Rightarrow> ref list
     \<Rightarrow> (ref \<Rightarrow> Job) \<times> int option set \<times> ref list" where
  "queue_jobs_loop when pr h [] ids jobs_to_queue = (h, ids, jobs_to_queue)"
| "queue_jobs_loop when pr h (r # rs) ids jobs_to_queue =
     (if not_queueable (h r) then queue_jobs_loop when pr h rs ids jobs_to_queue
      else queue_jobs_loop when pr (h(r := queue_fields when pr (h r))) rs
             (insert (job_id (h r)) ids) (jobs_to_queue @ [r]))"

definition queue_jobs :: "world \<Rightarrow> ref list \<Rightarrow> datetime \<Rightarrow> int option \<Rightarrow> world \<times> ref list" where
  "queue_jobs w jobs when pr =
     (let (h, job_ids, jobs_to_queue) = queue_jobs_loop when pr (objs w) jobs {} []
      in (w\<lparr>objs := h, job_rows := update_rows job_ids (queue_fields when pr) (job_rows w)\<rparr>,
          jobs_to_queue))"

subsection \<open>JobManager.supersede\_jobs\<close>

definition supersede_fields :: "datetime \<Rightarrow> datetime \<Rightarrow> Job \<Rightarrow> Job" where
  "supersede_fields when modified j =
     j\<lparr>is_superseded := True, superseded := Some when, last_modified := Some modified\<rparr>"

fun supersede_loop ::
  "datetime \<Rightarrow> datetime \<Rightarrow> (ref \<Rightarrow> Job) \<Rightarrow> ref list \<Rightarrow> int option set \<Rightarrow> ref list
     \<Rightarrow> (ref \<Rightarrow> Job) \<times> int option set \<times> ref list" where
  "supersede_loop when modified h [] ids jobs_to_cancel = (h, ids, jobs_to_cancel)"
| "supersede_loop when modified h (r # rs) ids jobs_to_cancel =
     supersede_loop when modified (h(r := supersede_fields when modified (h r))) rs
       (insert (job_id (h r)) ids)
       (if status (h r) \<in> set [PENDING, BLOCKED] then jobs_to_cancel @ [r]
        else jobs_to_cancel)"

text \<open>
  \<open>modified\<close> is this method's \<^verbatim>\<open>timezone.now()\<close>, \<open>modified'\<close> the one inside
  \<^verbatim>\<open>update_status\<close>.
\<close>

definition supersede_jobs ::
  "world \<Rightarrow> ref list \<Rightarrow> datetime \<Rightarrow> datetime \<Rightarrow> datetime \<Rightarrow> exn + world" where
  "supersede_jobs w jobs when modified modified' =
     (let (h, job_ids, jobs_to_cancel) =
            supersede_loop when modified (objs w) jobs {} [];
          w1 = w\<lparr>objs := h,
                 job_rows := update_rows job_ids (supersede_fields when modified) (job_rows w)\<rparr>
      in if jobs_to_cancel \<noteq> [] then update_status w1 jobs_to_cancel CANCELED when None modified'
         else Inr w1)"

subsection \<open>JobManager.update\_jobs\_to\_running\<close>

text \<open>
  A model instance that a query builds from a row carries the columns of the table.
  \<^verbatim>\<open>exe_num\<close> is not a column of the table \<^verbatim>\<open>job\<close>, so such an instance lacks the
  attribute.
\<close>

definition from_row :: "Job \<Rightarrow> Job" where
  "from_row row = row\<lparr>exe_num := None\<rparr>"

text \<open>
  \<^verbatim>\<open>get_locked_jobs\<close>: the rows with the given IDs, in ascending ID order.
\<close>

definition get_locked_jobs :: "Job list \<Rightarrow> int list \<Rightarrow> Job list" where
  "get_locked_jobs rows job_ids =
     map from_row (sort_key job_id (filter (\<lambda>row. job_id row \<in> Some ` set job_ids) rows))"

text \<open>
  \<^verbatim>\<open>locked_job.exe_num.status\<close> reads the attribute \<^verbatim>\<open>status\<close> of an integer, which no
  integer has.
\<close>

definition int_status :: "int \<Rightarrow> exn + status" where
  "int_status n = Inl AttributeError"

text \<open>
  The loop. \<open>jobs\<close> is the dict of the caller, from job ID to execution number; the
  source indexes it with \<^verbatim>\<open>locked_job.exe_num\<close>.
\<close>

fun running_loop ::
  "(int \<times> int) list \<Rightarrow> Job list \<Rightarrow> int option list \<Rightarrow> int option list
     \<Rightarrow> exn + (int option list \<times> int option list)" where
  "running_loop jobs [] jobs_to_update jobs_to_update_no_status =
     Inr (jobs_to_update, jobs_to_update_no_status)"
| "running_loop jobs (locked_job # rest) jobs_to_update jobs_to_update_no_status =
     (case exe_num locked_job of
        None \<Rightarrow> Inl AttributeError
      | Some n \<Rightarrow>
          (case map_of jobs n of
             None \<Rightarrow> Inl KeyError
           | Some exe_num' \<Rightarrow>
               if n \<noteq> exe_num' then
                 running_loop jobs rest jobs_to_update jobs_to_update_no_status
               else
                 (case int_status n of
                    Inl e \<Rightarrow> Inl e
                  | Inr s \<Rightarrow>
                      if s = QUEUED then
                        running_loop jobs rest (jobs_to_update @ [job_id locked_job])
                          jobs_to_update_no_status
                      else
                        running_loop jobs rest jobs_to_update
                          (jobs_to_update_no_status @ [job_id locked_job]))))"

definition running_fields :: "datetime \<Rightarrow> datetime \<Rightarrow> Job \<Rightarrow> Job" where
  "running_fields when modified j =
     j\<lparr>status := RUNNING, last_status_change := Some when, started := Some when,
       last_modified := Some modified\<rparr>"

definition started_fields :: "datetime \<Rightarrow> datetime \<Rightarrow> Job \<Rightarrow> Job" where
  "started_fields when modified j = j\<lparr>started := Some when, last_modified := Some modified\<rparr>"

definition update_jobs_to_running ::
  "world \<Rightarrow> (int \<times> int) list \<Rightarrow> datetime \<Rightarrow> datetime \<Rightarrow> exn + world" where
  "update_jobs_to_running w jobs when modified =
     (case running_loop jobs (get_locked_jobs (job_rows w) (map fst jobs)) [] [] of
        Inl e \<Rightarrow> Inl e
      | Inr (jobs_to_update, jobs_to_update_no_status) \<Rightarrow>
          (let rows1 = (if jobs_to_update \<noteq> [] then
                          update_rows (set jobs_to_update) (running_fields when modified)
                            (job_rows w)
                        else job_rows w);
               rows2 = (if jobs_to_update_no_status \<noteq> [] then
                          update_rows (set jobs_to_update_no_status)
                            (started_fields when modified) rows1
                        else rows1)
           in Inr (w\<lparr>job_rows := rows2\<rparr>)))"

subsection \<open>Saving a job, complete\_job and fail\_job\<close>







subsection \<open>JobManager.create\_job\<close>

definition get_revision :: "JobTypeRevision list \<Rightarrow> int \<Rightarrow> int \<Rightarrow> exn + JobTypeRevision" where
  "get_revision revs jt_id rev_num =
     (case filter (\<lambda>r. rev_job_type_id r = jt_id \<and> rev_revision_num r = rev_num) revs of
        [] \<Rightarrow> Inl DoesNotExist
      | [r] \<Rightarrow> Inr r
      | _ \<Rightarrow> Inl MultipleObjectsReturned)"

text \<open>
  \<^verbatim>\<open>Job()\<close> with the field defaults of the class, and the six assignments that
  \<^verbatim>\<open>create_job\<close> always makes.
\<close>

definition new_job :: "JobType \<Rightarrow> JobTypeRevision \<Rightarrow> int \<Rightarrow> Job" where
  "new_job jt revision ev =
     \<lparr>job_id = None, job_type = jt, job_type_rev = revision, status = PENDING, event = ev,
      error = None, data = [], results = [], priority = type_priority jt,
      timeout = type_timeout jt, max_tries = type_max_tries jt, num_exes = 0,
      exe_num = None, disk_in_required = None, disk_out_required = None,
      is_superseded = False, root_superseded_job_id = None, superseded_job_id = None,
      delete_superseded = True, created = None, queued = None, started = None,
      ended = None, last_status_change = None, superseded = None, last_modified = None\<rparr>"

definition create_job ::
  "JobTypeRevision list \<Rightarrow> JobType \<Rightarrow> int option \<Rightarrow> Job option \<Rightarrow> bool \<Rightarrow> exn + Job" where
  "create_job revs jt ev superseded_job del_superseded =
     (if \<not> is_active jt then Inl (Exception ''Job type is no longer active'')
      else case ev of
        None \<Rightarrow> Inl (Exception ''Event that triggered job creation is required'')
      | Some e \<Rightarrow>
          (case get_revision revs (job_type_id jt) (revision_num jt) of
             Inl x \<Rightarrow> Inl x
           | Inr revision \<Rightarrow>
               (let job = new_job jt revision e
                in case superseded_job of
                     None \<Rightarrow> Inr job
                   | Some sj \<Rightarrow>
                       (let root_id = root_superseded_job_id sj;
                            root_id' = (if \<not> truthy_int root_id then job_id sj else root_id)
                        in Inr (job\<lparr>root_superseded_job_id := root_id',
                                    superseded_job_id := job_id sj,
                                    delete_superseded := del_superseded\<rparr>)))))"

subsection \<open>Resource requirements: populate\_job\_data and get\_resources\<close>

fun sum_file_sizes :: "int list \<Rightarrow> int \<Rightarrow> int" where
  "sum_file_sizes [] input_size_bytes = input_size_bytes"
| "sum_file_sizes (file_size # rest) input_size_bytes =
     sum_file_sizes rest (input_size_bytes + file_size)"

definition data_fields :: "json_dict \<Rightarrow> real \<Rightarrow> real \<Rightarrow> datetime \<Rightarrow> Job \<Rightarrow> Job" where
  "data_fields d disk_in disk_out modified j =
     j\<lparr>data := d, disk_in_required := Some disk_in, disk_out_required := Some disk_out,
       last_modified := Some modified\<rparr>"

text \<open>
  \<^verbatim>\<open>populate_job_data\<close>. \<open>valid\<close> is the outcome of \<^verbatim>\<open>interface.validate_data(data)\<close>,
  \<open>file_sizes\<close> the \<^verbatim>\<open>file_size\<close> of every file that \<^verbatim>\<open>ScaleFile.objects.get_files\<close>
  returns, \<open>d\<close> the dict \<^verbatim>\<open>data.get_dict()\<close>. The rows written to the tables of input
  files and of file ancestry are outside the model.
\<close>

definition populate_job_data ::
  "world \<Rightarrow> ref \<Rightarrow> json_dict \<Rightarrow> bool \<Rightarrow> int list \<Rightarrow> datetime \<Rightarrow> exn + world" where
  "populate_job_data w job d valid file_sizes modified =
     (if \<not> valid then Inl InvalidData
      else
        (let input_size_bytes = sum_file_sizes file_sizes 0;
             input_size_mb = \<lceil>real_of_int input_size_bytes / (1024 * 1024)\<rceil>;
             multiplier = disk_out_mult_required (job_type (objs w job));
             const = disk_out_const_required (job_type (objs w job));
             output_size_mb = \<lceil>multiplier * real_of_int input_size_mb + const\<rceil>;
             disk_in = max (real_of_int input_size_mb) MIN_DISK;
             disk_out = max (real_of_int output_size_mb) MIN_DISK;
             upd = data_fields d disk_in disk_out modified
         in Inr (w\<lparr>objs := (objs w)(job := upd (objs w job)),
                   job_rows := update_rows {job_id (objs w job)} upd (job_rows w)\<rparr>)))"

text \<open>
  \<^verbatim>\<open>JobType.get_resources\<close> calls \<^verbatim>\<open>resources.remove_resource(...)\<close> on a
  \<^verbatim>\<open>NodeResources\<close>. The class \<^verbatim>\<open>NodeResources\<close> defines no method of this name, so the
  call raises AttributeError.
\<close>

definition remove_resource :: "string \<Rightarrow> node_resources \<Rightarrow> exn + node_resources" where
  "remove_resource n d = Inl AttributeError"

definition job_type_get_resources ::
  "(real \<Rightarrow> real \<Rightarrow> real) \<Rightarrow> JobType \<Rightarrow> exn + node_resources" where
  "job_type_get_resources fadd jt =
     (case remove_resource ''cpus'' (custom_node_resources jt) of
        Inl e \<Rightarrow> Inl e
      | Inr r1 \<Rightarrow>
          (case remove_resource ''mem'' r1 of
             Inl e \<Rightarrow> Inl e
           | Inr r2 \<Rightarrow>
               (case remove_resource ''disk'' r2 of
                  Inl e \<Rightarrow> Inl e
                | Inr resources \<Rightarrow>
                    (let cpus = max (cpus_required jt) MIN_CPUS
                     in case NodeResources [Cpus cpus] of
                          Inl e \<Rightarrow> Inl e
                        | Inr other \<Rightarrow> Inr (add fadd resources other)))))"

definition get_resources :: "(real \<Rightarrow> real \<Rightarrow> real) \<Rightarrow> Job \<Rightarrow> exn + node_resources" where
  "get_resources fadd j =
     (case job_type_get_resources fadd (job_type j) of
        Inl e \<Rightarrow> Inl e
      | Inr resources \<Rightarrow>
          (let disk_in = (case disk_in_required j of
                            None \<Rightarrow> 0
                          | Some x \<Rightarrow> if x = 0 then 0 else x);
               memory_mb = \<lceil>mem_mult_required (job_type j) * disk_in
                              + mem_const_required (job_type j)\<rceil>;
               memory_required = max (real_of_int memory_mb) MIN_MEM;
               output_size_mb = \<lceil>disk_out_mult_required (job_type j) * disk_in
                                   + disk_out_const_required (job_type j)\<rceil>;
               disk_out = max (real_of_int output_size_mb) MIN_DISK
           in case NodeResources [Mem memory_required, Disk (disk_out + disk_in)] of
                Inl e \<Rightarrow> Inl e
              | Inr other \<Rightarrow> Inr (add fadd resources other)))"

subsection \<open>Concrete models used to run the operations\<close>

definition JT0 :: JobType where
  "JT0 = \<lparr>job_type_id = 7, is_active = True, revision_num = 2, type_priority = 100,
          type_timeout = 1800, type_max_tries = 3, cpus_required = 1,
          mem_const_required = 64, mem_mult_required = 0, disk_out_const_required = 64,
          disk_out_mult_required = 1,
          custom_node_resources = [(''gpus'', 1), (''cpus'', 0), (''mem'', 0), (''disk'', 0)]\<rparr>"

definition REV1 :: JobTypeRevision where
  "REV1 = \<lparr>rev_id = 70, rev_job_type_id = 7, rev_revision_num = 1, rev_interface = []\<rparr>"

definition REV2 :: JobTypeRevision where
  "REV2 = \<lparr>rev_id = 71, rev_job_type_id = 7, rev_revision_num = 2,
           rev_interface = [(''version'', ''1.4'')]\<rparr>"

text \<open>A saved PENDING job with data, and a RUNNING one.\<close>

definition J1 :: Job where
  "J1 = (new_job JT0 REV2 5)\<lparr>job_id := Some 1, data := [(''input_data'', ''file 12'')],
                               exe_num := Some 1\<rparr>"

definition J2 :: Job where
  "J2 = (new_job JT0 REV2 5)\<lparr>job_id := Some 2, data := [(''input_data'', ''file 13'')],
                               status := RUNNING, num_exes := 1, exe_num := Some 1\<rparr>"

definition W0 :: world where
  "W0 = \<lparr>objs = (\<lambda>r. if r = 0 then J1 else J2), job_rows = [J1, J2], job_exe_rows = []\<rparr>"

definition E1 :: JobExecution where
  "E1 = \<lparr>job_exe_id = Some 11, exe_job = 1, exe_status = Some RUNNING, exe_error = None,
         exe_ended = None, exe_last_modified = None\<rparr>"

text \<open>A QUEUED job, saved as row 1, on its first execution.\<close>

definition J3 :: Job where
  "J3 = (new_job JT0 REV2 5)\<lparr>job_id := Some 1, data := [(''input_data'', ''file 12'')],
                               status := QUEUED, num_exes := 1, queued := Some 90,
                               last_modified := Some 90\<rparr>"

definition W1 :: world where
  "W1 = \<lparr>objs = (\<lambda>r. J3), job_rows = [J3], job_exe_rows = []\<rparr>"



text \<open>A job that superseded job 9, and is row 3.\<close>

definition J4 :: Job where
  "J4 = (new_job JT0 REV1 4)\<lparr>job_id := Some 3, root_superseded_job_id := Some 9,
                               superseded_job_id := Some 9\<rparr>"

section \<open>Resource vectors: adding and subtracting\<close>













section \<open>Queuing jobs\<close>

lemma update_rows_empty: "update_rows {} f rows = rows"
  by (simp add: update_rows_def)

lemma not_queueable_queue_fields: "not_queueable (queue_fields when pr j)"
  by (simp add: not_queueable_def is_ready_to_queue_def queue_fields_def set_priority_def
      split: option.splits)

lemma queue_jobs_loop_objs:
  "fst (queue_jobs_loop when pr h rs ids acc) =
     (\<lambda>r. if r \<in> set rs \<and> \<not> not_queueable (h r) then queue_fields when pr (h r) else h r)"
proof (induction rs arbitrary: h ids acc)
  case Nil
  show ?case by simp
next
  case (Cons r rs)
  show ?case
    by (auto simp: Cons.IH not_queueable_queue_fields fun_eq_iff)
qed

lemma queue_jobs_loop_returned:
  "set (snd (snd (queue_jobs_loop when pr h rs ids acc))) =
     set acc \<union> {r \<in> set rs. \<not> not_queueable (h r)}"
proof (induction rs arbitrary: h ids acc)
  case Nil
  show ?case by simp
next
  case (Cons r rs)
  show ?case
    by (auto simp: Cons.IH not_queueable_queue_fields)
qed

lemma queue_jobs_loop_distinct:
  "distinct acc \<Longrightarrow> \<forall>r \<in> set acc. not_queueable (h r) \<Longrightarrow>
     distinct (snd (snd (queue_jobs_loop when pr h rs ids acc)))"
proof (induction rs arbitrary: h ids acc)
  case Nil
  then show ?case by simp
next
  case (Cons r rs)
  show ?case
  proof (cases "not_queueable (h r)")
    case True
    then show ?thesis using Cons by simp
  next
    case False
    have "distinct (acc @ [r])" using Cons.prems False by auto
    moreover have "\<forall>x \<in> set (acc @ [r]). not_queueable ((h(r := queue_fields when pr (h r))) x)"
      using Cons.prems by (auto simp: not_queueable_queue_fields)
    ultimately show ?thesis using False Cons.IH by simp
  qed
qed

lemma queue_jobs_loop_skip:
  "\<forall>r \<in> set rs. not_queueable (h r) \<Longrightarrow> queue_jobs_loop when pr h rs ids acc = (h, ids, acc)"
  by (induction rs arbitrary: h ids acc) auto

lemma queue_jobs_objs:
  "objs (fst (queue_jobs w jobs when pr)) =
     (\<lambda>r. if r \<in> set jobs \<and> \<not> not_queueable (objs w r) then queue_fields when pr (objs w r)
          else objs w r)"
  using queue_jobs_loop_objs [of "when" pr "objs w" jobs "{}" "[]"]
  by (simp add: queue_jobs_def case_prod_unfold Let_def)

lemma queue_jobs_returned:
  "set (snd (queue_jobs w jobs when pr)) = {r \<in> set jobs. \<not> not_queueable (objs w r)}"
  using queue_jobs_loop_returned [of "when" pr "objs w" jobs "{}" "[]"]
  by (simp add: queue_jobs_def case_prod_unfold Let_def)

lemma queue_jobs_distinct: "distinct (snd (queue_jobs w jobs when pr))"
  using queue_jobs_loop_distinct [of "[]" "objs w" "when" pr jobs "{}"]
  by (simp add: queue_jobs_def case_prod_unfold Let_def)

lemma queue_jobs_twice:
  "queue_jobs (fst (queue_jobs w jobs when pr)) jobs when' pr' =
     (fst (queue_jobs w jobs when pr), [])"
proof -
  let ?w' = "fst (queue_jobs w jobs when pr)"
  have "\<forall>r \<in> set jobs. not_queueable (objs ?w' r)"
    by (simp add: queue_jobs_objs not_queueable_queue_fields)
  then have "queue_jobs_loop when' pr' (objs ?w') jobs {} [] = (objs ?w', {}, [])"
    by (rule queue_jobs_loop_skip)
  then show ?thesis
    by (simp add: queue_jobs_def [of ?w'] update_rows_empty)
qed

lemma queue_fields_zero: "queue_fields when (Some 0) = queue_fields when None"
  by (simp add: fun_eq_iff queue_fields_def set_priority_def)

lemma queue_jobs_loop_zero:
  "queue_jobs_loop when (Some 0) h rs ids acc = queue_jobs_loop when None h rs ids acc"
  by (induction rs arbitrary: h ids acc) (simp_all add: queue_fields_zero)

lemma priority_queue_fields_None: "priority (queue_fields when None j) = priority j"
  by (simp add: queue_fields_def set_priority_def)

lemma queue_fields_sets:
  "status (queue_fields when pr j) = QUEUED \<and> error (queue_fields when pr j) = None
   \<and> started (queue_fields when pr j) = None \<and> ended (queue_fields when pr j) = None
   \<and> num_exes (queue_fields when pr j) = num_exes j + 1"
  by (simp add: queue_fields_def set_priority_def split: option.splits)

text \<open>
  Claim C4: of the jobs passed to \<open>queue_jobs\<close>, a job is queued (and returned) if and
  only if its status is PENDING, CANCELED or FAILED, its data is not empty and it is not
  superseded. A queued job has status QUEUED, no error, no start and end time, and one
  more execution; any other job is left as it was. The returned list holds the queued
  jobs, each once. Queuing the same jobs again changes nothing and returns the empty list.
\<close>

theorem queue_jobs_queues_the_ready_jobs:
  assumes "queue_jobs w jobs when pr = (w', qs)"
  shows "(\<forall>r \<in> set jobs.
            (r \<in> set qs \<longleftrightarrow>
               status (objs w r) \<in> {PENDING, CANCELED, FAILED} \<and> data (objs w r) \<noteq> []
               \<and> \<not> is_superseded (objs w r))
          \<and> (r \<in> set qs \<longrightarrow>
               status (objs w' r) = QUEUED \<and> error (objs w' r) = None
               \<and> started (objs w' r) = None \<and> ended (objs w' r) = None
               \<and> num_exes (objs w' r) = num_exes (objs w r) + 1)
          \<and> (r \<notin> set qs \<longrightarrow> objs w' r = objs w r))
         \<and> set qs \<subseteq> set jobs \<and> distinct qs
         \<and> queue_jobs w' jobs when' pr' = (w', [])"
proof -
  have w': "w' = fst (queue_jobs w jobs when pr)"
    and q: "qs = snd (queue_jobs w jobs when pr)"
    using assms by simp_all
  have ready: "\<not> not_queueable j \<longleftrightarrow>
                 status j \<in> {PENDING, CANCELED, FAILED} \<and> data j \<noteq> [] \<and> \<not> is_superseded j"
    for j
    by (auto simp: not_queueable_def is_ready_to_queue_def truthy_dict_def)
  have mem: "r \<in> set qs \<longleftrightarrow> r \<in> set jobs \<and> \<not> not_queueable (objs w r)" for r
    unfolding q queue_jobs_returned by simp
  have a: "\<forall>r \<in> set jobs.
            (r \<in> set qs \<longleftrightarrow>
               status (objs w r) \<in> {PENDING, CANCELED, FAILED} \<and> data (objs w r) \<noteq> []
               \<and> \<not> is_superseded (objs w r))
          \<and> (r \<in> set qs \<longrightarrow>
               status (objs w' r) = QUEUED \<and> error (objs w' r) = None
               \<and> started (objs w' r) = None \<and> ended (objs w' r) = None
               \<and> num_exes (objs w' r) = num_exes (objs w r) + 1)
          \<and> (r \<notin> set qs \<longrightarrow> objs w' r = objs w r)"
    unfolding w' queue_jobs_objs mem using ready by (simp add: queue_fields_sets)
  have b: "set qs \<subseteq> set jobs" using mem by blast
  have c: "distinct qs" unfolding q by (rule queue_jobs_distinct)
  have d: "queue_jobs w' jobs when' pr' = (w', [])" unfolding w' by (rule queue_jobs_twice)
  show ?thesis using a b c d by blast
qed

theorem queue_jobs_queues_the_ready_jobs_witness:
  "snd (queue_jobs W0 [0, 1, 0] 50 None) = [0]
   \<and> status (objs W0 0) = PENDING \<and> data (objs W0 0) \<noteq> [] \<and> \<not> is_superseded (objs W0 0)
   \<and> status (objs (fst (queue_jobs W0 [0, 1, 0] 50 None)) 0) = QUEUED
   \<and> num_exes (objs (fst (queue_jobs W0 [0, 1, 0] 50 None)) 0) = 1
   \<and> objs (fst (queue_jobs W0 [0, 1, 0] 50 None)) 1 = objs W0 1
   \<and> queue_jobs (fst (queue_jobs W0 [0, 1, 0] 50 None)) [0, 1, 0] 60 None =
       (fst (queue_jobs W0 [0, 1, 0] 50 None), [])"
proof -
  have e: "snd (queue_jobs W0 [0, 1, 0] 50 None) = [0]"
    by (simp add: queue_jobs_def W0_def J1_def J2_def new_job_def not_queueable_def
        is_ready_to_queue_def truthy_dict_def queue_fields_def set_priority_def)
  have p: "status (objs W0 0) = PENDING \<and> data (objs W0 0) \<noteq> []
           \<and> \<not> is_superseded (objs W0 0) \<and> num_exes (objs W0 0) = 0"
    by (simp add: W0_def J1_def new_job_def)
  have h: "queue_jobs W0 [0, 1, 0] 50 None =
             (fst (queue_jobs W0 [0, 1, 0] 50 None), snd (queue_jobs W0 [0, 1, 0] 50 None))"
    by simp
  show ?thesis
    using queue_jobs_queues_the_ready_jobs [OF h, of 60 None] e p by simp
qed

text \<open>
  Claim C10: \<open>queue_jobs\<close> with priority 0 does what \<open>queue_jobs\<close> without a priority
  does, and leaves the priority of every job, in memory and in the table, as it was.
\<close>

theorem queue_jobs_priority_zero:
  "queue_jobs w jobs when (Some 0) = queue_jobs w jobs when None
   \<and> priority (objs (fst (queue_jobs w jobs when (Some 0))) r) = priority (objs w r)
   \<and> map priority (job_rows (fst (queue_jobs w jobs when (Some 0)))) =
       map priority (job_rows w)"
proof -
  have e: "queue_jobs w jobs when (Some 0) = queue_jobs w jobs when None"
    by (simp add: queue_jobs_def queue_jobs_loop_zero queue_fields_zero)
  have p: "priority (objs (fst (queue_jobs w jobs when None)) r) = priority (objs w r)"
    by (simp add: queue_jobs_objs priority_queue_fields_None)
  have d: "map priority (job_rows (fst (queue_jobs w jobs when None))) =
             map priority (job_rows w)"
    by (simp add: queue_jobs_def update_rows_def priority_queue_fields_None o_def
        split: prod.splits)
  show ?thesis using e p d by simp
qed

section \<open>The generic status updates\<close>

lemma status_fields_idem:
  "status_fields st when err modified (status_fields st when err modified j) =
     status_fields st when err modified j"
  by (simp add: status_fields_def Let_def)

lemma update_status_loop_objs:
  assumes "\<And>j. f (f j) = f j"
  shows "fst (update_status_loop f h rs ids) = (\<lambda>r. if r \<in> set rs then f (h r) else h r)"
proof (induction rs arbitrary: h ids)
  case Nil
  show ?case by simp
next
  case (Cons r rs)
  show ?case by (auto simp: Cons.IH assms fun_eq_iff)
qed

lemma update_status_ok:
  assumes "st \<noteq> QUEUED" and "st = FAILED \<longleftrightarrow> err \<noteq> None"
  shows "\<exists>w'. update_status w jobs st when err modified = Inr w'
           \<and> objs w' = (\<lambda>r. if r \<in> set jobs then status_fields st when err modified (objs w r)
                             else objs w r)"
proof -
  have "fst (update_status_loop (status_fields st when err modified) (objs w) jobs {}) =
          (\<lambda>r. if r \<in> set jobs then status_fields st when err modified (objs w r) else objs w r)"
    by (rule update_status_loop_objs) (rule status_fields_idem)
  then show ?thesis
    using assms by (auto simp: update_status_def case_prod_unfold Let_def)
qed

lemma status_status_fields: "status (status_fields st when err modified j) = st"
  by (simp add: status_fields_def Let_def)

lemma exe_update_status_loop_jobs:
  "snd (snd (exe_update_status_loop f es ids jobs)) = jobs @ map exe_job es"
  by (induction es arbitrary: ids jobs) (simp_all add: case_prod_unfold Let_def)

text \<open>
  Claim C3: \<open>JobManager.update_status\<close> and \<open>JobExecutionManager.update_status\<close> both
  raise an exception when the target status is QUEUED, when it is FAILED and no error is
  given, and when it is not FAILED and an error is given. When
  \<open>JobExecutionManager.update_status\<close> returns, the parent job of every execution passed
  to it has the target status.
\<close>

theorem update_status_usage_errors:
  "(\<exists>msg. update_status w jobs QUEUED when err modified = Inl (Exception msg))
   \<and> (\<exists>msg. update_status w jobs FAILED when None modified = Inl (Exception msg))
   \<and> (st \<noteq> FAILED \<longrightarrow>
        (\<exists>msg. update_status w jobs st when (Some e) modified = Inl (Exception msg)))
   \<and> (\<exists>msg. exe_update_status w job_exes QUEUED when err modified modified' =
              Inl (Exception msg))
   \<and> (\<exists>msg. exe_update_status w job_exes FAILED when None modified modified' =
              Inl (Exception msg))
   \<and> (st \<noteq> FAILED \<longrightarrow>
        (\<exists>msg. exe_update_status w job_exes st when (Some e) modified modified' =
                Inl (Exception msg)))
   \<and> (exe_update_status w job_exes st when err modified modified' = Inr (w', job_exes') \<longrightarrow>
        (\<forall>x \<in> set job_exes. status (objs w' (exe_job x)) = st))"
proof -
  have a: "\<exists>msg. update_status w jobs QUEUED when err modified = Inl (Exception msg)"
    by (simp add: update_status_def)
  have b: "\<exists>msg. update_status w jobs FAILED when None modified = Inl (Exception msg)"
    by (simp add: update_status_def)
  have c: "st \<noteq> FAILED \<longrightarrow>
        (\<exists>msg. update_status w jobs st when (Some e) modified = Inl (Exception msg))"
    by (simp add: update_status_def)
  have d: "\<exists>msg. exe_update_status w job_exes QUEUED when err modified modified' =
              Inl (Exception msg)"
    by (simp add: exe_update_status_def)
  have e: "\<exists>msg. exe_update_status w job_exes FAILED when None modified modified' =
              Inl (Exception msg)"
    by (simp add: exe_update_status_def)
  have f: "st \<noteq> FAILED \<longrightarrow>
        (\<exists>msg. exe_update_status w job_exes st when (Some e) modified modified' =
                Inl (Exception msg))"
    by (simp add: exe_update_status_def)
  have g: "\<forall>x \<in> set job_exes. status (objs w' (exe_job x)) = st"
    if ok: "exe_update_status w job_exes st when err modified modified' = Inr (w', job_exes')"
  proof -
    let ?l = "exe_update_status_loop (exe_status_fields st when err modified) job_exes {} []"
    let ?w1 = "w\<lparr>job_exe_rows :=
                  update_exe_rows (fst (snd ?l)) (exe_status_fields st when err modified)
                    (job_exe_rows w)\<rparr>"
    have q: "st \<noteq> QUEUED" and m: "st = FAILED \<longleftrightarrow> err \<noteq> None"
      using ok by (auto simp: exe_update_status_def split: if_splits)
    have j: "snd (snd ?l) = map exe_job job_exes"
      by (simp add: exe_update_status_loop_jobs)
    from ok have u: "update_status ?w1 (map exe_job job_exes) st when err modified' = Inr w'"
      using j by (auto simp: exe_update_status_def case_prod_unfold Let_def
          split: if_splits sum.splits)
    from update_status_ok [OF q m, of ?w1 "map exe_job job_exes" "when" modified'] u
    have "objs w' = (\<lambda>r. if r \<in> set (map exe_job job_exes)
                          then status_fields st when err modified' (objs ?w1 r) else objs ?w1 r)"
      by auto
    then show ?thesis by (simp add: status_status_fields)
  qed
  show ?thesis using a b c d e f g by blast
qed

theorem update_status_usage_errors_witness:
  "CANCELED \<noteq> FAILED
   \<and> (\<exists>msg. update_status W0 [0] CANCELED 70 (Some ''timeout'') 71 = Inl (Exception msg))
   \<and> (\<exists>w' es'. exe_update_status W0 [E1] COMPLETED 70 None 71 72 = Inr (w', es')
        \<and> E1 \<in> set [E1] \<and> status (objs W0 (exe_job E1)) = RUNNING
        \<and> status (objs w' (exe_job E1)) = COMPLETED)"
proof -
  have r: "status (objs W0 (exe_job E1)) = RUNNING"
    by (simp add: W0_def E1_def J2_def new_job_def)
  have "\<exists>p. exe_update_status W0 [E1] COMPLETED 70 None 71 72 = Inr p"
    by (simp add: exe_update_status_def update_status_def case_prod_unfold Let_def)
  then obtain w' es' where ok: "exe_update_status W0 [E1] COMPLETED 70 None 71 72 = Inr (w', es')"
    by fastforce
  show ?thesis
    using update_status_usage_errors [of W0 "[0]" "70" None 71 CANCELED "''timeout''" "[E1]" 72 w' es']
      update_status_usage_errors [of W0 "[0]" "70" None 71 COMPLETED "''timeout''" "[E1]" 72 w' es']
      ok r by auto
qed

section \<open>Superseding jobs\<close>

lemma supersede_fields_idem:
  "supersede_fields when modified (supersede_fields when modified j) =
     supersede_fields when modified j"
  by (simp add: supersede_fields_def)

lemma supersede_loop_objs:
  "fst (supersede_loop when modified h rs ids acc) =
     (\<lambda>r. if r \<in> set rs then supersede_fields when modified (h r) else h r)"
proof (induction rs arbitrary: h ids acc)
  case Nil
  show ?case by simp
next
  case (Cons r rs)
  show ?case by (auto simp: Cons.IH supersede_fields_idem fun_eq_iff)
qed

lemma status_supersede_fields: "status (supersede_fields when modified j) = status j"
  by (simp add: supersede_fields_def)

lemma supersede_loop_to_cancel:
  "set (snd (snd (supersede_loop when modified h rs ids acc))) =
     set acc \<union> {r \<in> set rs. status (h r) \<in> {PENDING, BLOCKED}}"
proof (induction rs arbitrary: h ids acc)
  case Nil
  show ?case by simp
next
  case (Cons r rs)
  show ?case by (auto simp: Cons.IH status_supersede_fields)
qed

lemma status_fields_keeps_superseded:
  "is_superseded (status_fields st when err modified j) = is_superseded j
   \<and> superseded (status_fields st when err modified j) = superseded j"
  by (simp add: status_fields_def Let_def)

lemma supersede_fields_sets:
  "is_superseded (supersede_fields when modified j)
   \<and> superseded (supersede_fields when modified j) = Some when"
  by (simp add: supersede_fields_def)

text \<open>
  Claim C7: \<open>supersede_jobs\<close> returns, and then every job passed to it is marked
  superseded with the given time; a job whose status was PENDING or BLOCKED is CANCELED,
  and every other job of the list keeps its status.
\<close>

theorem supersede_jobs_cancels_pending_and_blocked:
  "\<exists>w'. supersede_jobs w jobs when modified modified' = Inr w'
     \<and> (\<forall>r \<in> set jobs.
           is_superseded (objs w' r) \<and> superseded (objs w' r) = Some when
         \<and> (status (objs w r) \<in> {PENDING, BLOCKED} \<longrightarrow> status (objs w' r) = CANCELED)
         \<and> (status (objs w r) \<notin> {PENDING, BLOCKED} \<longrightarrow> status (objs w' r) = status (objs w r)))"
proof -
  let ?l = "supersede_loop when modified (objs w) jobs {} []"
  let ?h = "\<lambda>r. if r \<in> set jobs then supersede_fields when modified (objs w r) else objs w r"
  let ?w1 = "w\<lparr>objs := ?h,
               job_rows := update_rows (fst (snd ?l)) (supersede_fields when modified)
                             (job_rows w)\<rparr>"
  let ?c = "snd (snd ?l)"
  have h: "fst ?l = ?h" by (rule supersede_loop_objs)
  have c: "set ?c = {r \<in> set jobs. status (objs w r) \<in> {PENDING, BLOCKED}}"
    by (simp add: supersede_loop_to_cancel)
  have s: "supersede_jobs w jobs when modified modified' =
             (if ?c \<noteq> [] then update_status ?w1 ?c CANCELED when None modified' else Inr ?w1)"
    using h by (simp add: supersede_jobs_def case_prod_unfold Let_def)
  show ?thesis
  proof (cases "?c = []")
    case True
    then have none: "\<forall>r \<in> set jobs. status (objs w r) \<notin> {PENDING, BLOCKED}"
      using c by auto
    have "supersede_jobs w jobs when modified modified' = Inr ?w1"
      using s True by simp
    moreover have "\<forall>r \<in> set jobs.
           is_superseded (objs ?w1 r) \<and> superseded (objs ?w1 r) = Some when
         \<and> (status (objs w r) \<in> {PENDING, BLOCKED} \<longrightarrow> status (objs ?w1 r) = CANCELED)
         \<and> (status (objs w r) \<notin> {PENDING, BLOCKED} \<longrightarrow> status (objs ?w1 r) = status (objs w r))"
      using none by (simp add: supersede_fields_sets status_supersede_fields)
    ultimately show ?thesis by blast
  next
    case False
    from update_status_ok [of CANCELED None ?w1 ?c "when" modified']
    obtain w' where u: "update_status ?w1 ?c CANCELED when None modified' = Inr w'"
      and o: "objs w' = (\<lambda>r. if r \<in> set ?c
                               then status_fields CANCELED when None modified' (objs ?w1 r)
                               else objs ?w1 r)"
      by auto
    have "supersede_jobs w jobs when modified modified' = Inr w'"
      using s False u by simp
    moreover have "\<forall>r \<in> set jobs.
           is_superseded (objs w' r) \<and> superseded (objs w' r) = Some when
         \<and> (status (objs w r) \<in> {PENDING, BLOCKED} \<longrightarrow> status (objs w' r) = CANCELED)
         \<and> (status (objs w r) \<notin> {PENDING, BLOCKED} \<longrightarrow> status (objs w' r) = status (objs w r))"
      unfolding o c
      by (simp add: supersede_fields_sets status_supersede_fields status_status_fields
          status_fields_keeps_superseded)
    ultimately show ?thesis by blast
  qed
qed

theorem supersede_jobs_cancels_pending_and_blocked_witness:
  "status (objs W0 0) = PENDING \<and> status (objs W0 1) = RUNNING
   \<and> (\<exists>w'. supersede_jobs W0 [0, 1] 80 81 82 = Inr w'
        \<and> is_superseded (objs w' 0) \<and> is_superseded (objs w' 1)
        \<and> superseded (objs w' 1) = Some 80
        \<and> status (objs w' 0) = CANCELED \<and> status (objs w' 1) = RUNNING)"
proof -
  have p: "status (objs W0 0) = PENDING \<and> status (objs W0 1) = RUNNING"
    by (simp add: W0_def J1_def J2_def new_job_def)
  show ?thesis
    using supersede_jobs_cancels_pending_and_blocked [of W0 "[0, 1]" 80 81 82] p by auto
qed

section \<open>Updating jobs to RUNNING\<close>

text \<open>
  Every job that \<open>get_locked_jobs\<close> returns lacks the attribute \<open>exe_num\<close>, so the first
  line of the loop body raises.
\<close>

lemma running_loop_no_attribute:
  "exe_num l = None \<Longrightarrow> running_loop jobs (l # ls) upd ns = Inl AttributeError"
  by simp

lemma get_locked_jobs_exe_num: "l \<in> set (get_locked_jobs rows ids) \<Longrightarrow> exe_num l = None"
  by (auto simp: get_locked_jobs_def from_row_def)

lemma in_set_nonempty: "x \<in> set xs \<Longrightarrow> xs \<noteq> []"
  by auto

lemma get_locked_jobs_nonempty:
  "row \<in> set rows \<Longrightarrow> job_id row \<in> Some ` set ids \<Longrightarrow> get_locked_jobs rows ids \<noteq> []"
proof -
  assume "row \<in> set rows" and "job_id row \<in> Some ` set ids"
  then have "row \<in> set (sort_key job_id (filter (\<lambda>r. job_id r \<in> Some ` set ids) rows))"
    by simp
  then have "sort_key job_id (filter (\<lambda>r. job_id r \<in> Some ` set ids) rows) \<noteq> []"
    by (rule in_set_nonempty)
  then show ?thesis by (simp add: get_locked_jobs_def)
qed

text \<open>
  Claim C1 says that a job whose current execution number differs from the expected one
  keeps its status and has \<open>started\<close> and \<open>last_modified\<close> set. The source does not get
  that far: as soon as the dict names one job of the table, \<open>update_jobs_to_running\<close>
  raises AttributeError, and no row is written.
\<close>

theorem update_jobs_to_running_raises:
  assumes "row \<in> set (job_rows w)" and "job_id row = Some i" and "map_of jobs i = Some e"
  shows "update_jobs_to_running w jobs when modified = Inl AttributeError"
proof -
  have "(i, e) \<in> set jobs"
    using assms(3) by (rule map_of_SomeD)
  then have "i \<in> set (map fst jobs)"
    by force
  then have "job_id row \<in> Some ` set (map fst jobs)"
    using assms(2) by simp
  then have "get_locked_jobs (job_rows w) (map fst jobs) \<noteq> []"
    using assms(1) by (rule get_locked_jobs_nonempty [rotated])
  then obtain l ls where c: "get_locked_jobs (job_rows w) (map fst jobs) = l # ls"
    by (cases "get_locked_jobs (job_rows w) (map fst jobs)") auto
  then have "l \<in> set (get_locked_jobs (job_rows w) (map fst jobs))" by simp
  then have "exe_num l = None" by (rule get_locked_jobs_exe_num)
  then show ?thesis
    unfolding update_jobs_to_running_def c by (simp add: running_loop_no_attribute)
qed

text \<open>
  The call for the QUEUED job 1, which has had one execution, when the caller expects
  execution 2.
\<close>

theorem update_jobs_to_running_raises_witness:
  "J3 \<in> set (job_rows W1) \<and> job_id J3 = Some 1 \<and> status J3 = QUEUED \<and> num_exes J3 = 1
   \<and> map_of [(1, 2)] (1 :: int) = Some (2 :: int)
   \<and> update_jobs_to_running W1 [(1, 2)] 100 101 = Inl AttributeError"
proof -
  have a: "J3 \<in> set (job_rows W1)" by (simp add: W1_def)
  have b: "job_id J3 = Some 1" and s: "status J3 = QUEUED \<and> num_exes J3 = 1"
    by (simp_all add: J3_def new_job_def)
  have c: "map_of [(1, 2)] (1 :: int) = Some (2 :: int)" by simp
  show ?thesis
    using update_jobs_to_running_raises [OF a b c, of 100 101] a b c s by simp
qed

section \<open>Completing and failing a job\<close>








section \<open>Creating a job\<close>

lemma get_revision_Inr:
  "get_revision revs i n = Inr r \<Longrightarrow>
     r \<in> set revs \<and> rev_job_type_id r = i \<and> rev_revision_num r = n"
proof -
  assume "get_revision revs i n = Inr r"
  then have "filter (\<lambda>x. rev_job_type_id x = i \<and> rev_revision_num x = n) revs = [r]"
    by (auto simp: get_revision_def split: list.splits)
  then have "r \<in> set (filter (\<lambda>x. rev_job_type_id x = i \<and> rev_revision_num x = n) revs)"
    by simp
  then show ?thesis by simp
qed

text \<open>
  Claim C5: a job that \<open>create_job\<close> returns carries the revision of the job type whose
  number is the current \<open>revision_num\<close> of the type. If it supersedes a job J whose root
  is R, its root is R; if J has no root, its root is J. Primary keys are assigned by the
  database from 1, and the source tests the root with \<^verbatim>\<open>if not root_id\<close>, so R is taken
  to be different from 0.
\<close>

theorem create_job_links_root_and_pins_revision:
  assumes "create_job revs jt ev superseded_job del_superseded = Inr job"
  shows "job_type_rev job \<in> set revs
         \<and> rev_job_type_id (job_type_rev job) = job_type_id jt
         \<and> rev_revision_num (job_type_rev job) = revision_num jt
         \<and> (\<forall>sj. superseded_job = Some sj \<longrightarrow>
               (\<forall>R. root_superseded_job_id sj = Some R \<and> R \<noteq> 0 \<longrightarrow>
                     root_superseded_job_id job = Some R)
             \<and> (root_superseded_job_id sj = None \<longrightarrow>
                     root_superseded_job_id job = job_id sj))"
proof -
  from assms obtain e revision where
    r: "get_revision revs (job_type_id jt) (revision_num jt) = Inr revision"
    and j: "job = (case superseded_job of
                     None \<Rightarrow> new_job jt revision e
                   | Some sj \<Rightarrow> (new_job jt revision e)
                       \<lparr>root_superseded_job_id :=
                          (if \<not> truthy_int (root_superseded_job_id sj) then job_id sj
                           else root_superseded_job_id sj),
                        superseded_job_id := job_id sj,
                        delete_superseded := del_superseded\<rparr>)"
    by (auto simp: create_job_def Let_def split: if_splits option.splits sum.splits)
  have v: "job_type_rev job = revision"
    unfolding j by (simp add: new_job_def split: option.splits)
  have root: "\<forall>sj. superseded_job = Some sj \<longrightarrow>
               (\<forall>R. root_superseded_job_id sj = Some R \<and> R \<noteq> 0 \<longrightarrow>
                     root_superseded_job_id job = Some R)
             \<and> (root_superseded_job_id sj = None \<longrightarrow>
                     root_superseded_job_id job = job_id sj)"
    unfolding j by (auto simp: truthy_int_def)
  show ?thesis using get_revision_Inr [OF r] v root by simp
qed

theorem create_job_links_root_and_pins_revision_witness:
  "(\<exists>job. create_job [REV1, REV2] JT0 (Some 6) (Some J4) True = Inr job
       \<and> root_superseded_job_id J4 = Some 9 \<and> job_id J4 = Some 3
       \<and> root_superseded_job_id job = Some 9 \<and> job_type_rev job = REV2)
   \<and> (\<exists>job. create_job [REV1, REV2] JT0 (Some 6) (Some J1) True = Inr job
       \<and> root_superseded_job_id J1 = None \<and> job_id J1 = Some 1
       \<and> root_superseded_job_id job = Some 1 \<and> revision_num JT0 = 2)"
proof -
  have "\<exists>job. create_job [REV1, REV2] JT0 (Some 6) (Some J4) True = Inr job"
    by (simp add: create_job_def get_revision_def JT0_def REV1_def REV2_def Let_def)
  then obtain a where a: "create_job [REV1, REV2] JT0 (Some 6) (Some J4) True = Inr a" ..
  have "\<exists>job. create_job [REV1, REV2] JT0 (Some 6) (Some J1) True = Inr job"
    by (simp add: create_job_def get_revision_def JT0_def REV1_def REV2_def Let_def)
  then obtain b where b: "create_job [REV1, REV2] JT0 (Some 6) (Some J1) True = Inr b" ..
  have j4: "root_superseded_job_id J4 = Some 9 \<and> job_id J4 = Some 3"
    by (simp add: J4_def new_job_def)
  have j1: "root_superseded_job_id J1 = None \<and> job_id J1 = Some 1"
    by (simp add: J1_def new_job_def)
  have t: "revision_num JT0 = 2 \<and> job_type_id JT0 = 7" by (simp add: JT0_def)
  have ra: "rev_revision_num (job_type_rev a) = 2 \<Longrightarrow> job_type_rev a \<in> set [REV1, REV2]
            \<Longrightarrow> job_type_rev a = REV2"
    by (auto simp: REV1_def)
  show ?thesis
    using create_job_links_root_and_pins_revision [OF a]
      create_job_links_root_and_pins_revision [OF b] a b j4 j1 t ra
    by auto
qed

section \<open>Resource requirements\<close>

text \<open>\<open>get_resources\<close> raises for every job.\<close>

lemma get_resources_raises: "get_resources fadd j = Inl AttributeError"
  by (simp add: get_resources_def job_type_get_resources_def remove_resource_def)

lemma sum_file_sizes_eq: "sum_file_sizes fs acc = acc + sum_list fs"
  by (induction fs arbitrary: acc) simp_all

text \<open>
  Claim C8: for a job whose type has \<open>disk_out_const_required = 64\<close> and
  \<open>disk_out_mult_required = 1\<close>, and whose input files total 10 MiB,
  \<open>populate_job_data\<close> sets \<open>disk_in_required = 10\<close> and \<open>disk_out_required = 74\<close>; all
  numbers involved are whole, so the real arithmetic of the model is the floating-point
  arithmetic of the source. \<open>Job.get_resources\<close> does not compute the 128 MiB of memory
  of the claim: it raises AttributeError in \<open>JobType.get_resources\<close>, before the memory
  is computed.
\<close>

theorem resources_for_ten_mib:
  assumes "disk_out_const_required (job_type (objs w job)) = 64"
    and "disk_out_mult_required (job_type (objs w job)) = 1"
    and "sum_list file_sizes = 10 * 1024 * 1024"
  shows "\<exists>w'. populate_job_data w job d True file_sizes modified = Inr w'
           \<and> disk_in_required (objs w' job) = Some 10
           \<and> disk_out_required (objs w' job) = Some 74
           \<and> get_resources fadd (objs w' job) = Inl AttributeError"
proof -
  let ?j = "data_fields d 10 74 modified (objs w job)"
  let ?w' = "w\<lparr>objs := (objs w)(job := ?j),
               job_rows := update_rows {job_id (objs w job)} (data_fields d 10 74 modified)
                             (job_rows w)\<rparr>"
  have mb: "\<lceil>real_of_int (10 * 1024 * 1024) / (1024 * 1024)\<rceil> = 10" by simp
  have p: "populate_job_data w job d True file_sizes modified = Inr ?w'"
    using assms mb by (simp add: populate_job_data_def sum_file_sizes_eq Let_def MIN_DISK_def)
  have i: "disk_in_required ?j = Some 10" and o: "disk_out_required ?j = Some 74"
    by (simp_all add: data_fields_def)
  show ?thesis using p i o by (simp add: get_resources_raises)
qed

theorem resources_for_ten_mib_witness:
  "mem_const_required (job_type (objs W0 0)) = 64
   \<and> mem_mult_required (job_type (objs W0 0)) = 0
   \<and> disk_out_const_required (job_type (objs W0 0)) = 64
   \<and> disk_out_mult_required (job_type (objs W0 0)) = 1
   \<and> sum_list [4194304, 6291456] = (10 * 1024 * 1024 :: int)
   \<and> (\<exists>w'. populate_job_data W0 0 [(''input_data'', ''file 12'')] True [4194304, 6291456] 300
              = Inr w'
         \<and> disk_in_required (objs w' 0) = Some 10
         \<and> disk_out_required (objs w' 0) = Some 74
         \<and> get_resources (+) (objs w' 0) = Inl AttributeError)"
proof -
  have a: "mem_const_required (job_type (objs W0 0)) = 64"
    and b: "mem_mult_required (job_type (objs W0 0)) = 0"
    and c: "disk_out_const_required (job_type (objs W0 0)) = 64"
    and d: "disk_out_mult_required (job_type (objs W0 0)) = 1"
    by (simp_all add: W0_def J1_def new_job_def JT0_def)
  have e: "sum_list [4194304, 6291456] = (10 * 1024 * 1024 :: int)" by simp
  show ?thesis
    using resources_for_ten_mib [OF c d e] a b c d e by blast
qed

end
